theory Spec2Isabelle
  imports Complex_Main "HOL-Library.Sublist"
begin

section \<open>JavaScript values used by the dashboard\<close>

text \<open>
  The dashboard is TypeScript running in a browser.  Numbers that come out of a JSON
  response are finite, so a score is a \<open>real\<close>; a field that may be missing from a
  response is an \<open>option\<close>, \<open>None\<close> standing for \<open>undefined\<close>.  The operator
  \<open>a || b\<close> yields \<open>b\<close> when \<open>a\<close> is falsy: a missing value, the empty string or the
  number zero.
\<close>

definition truthy_string :: "string option \<Rightarrow> bool" where
  "truthy_string v = (case v of None \<Rightarrow> False | Some s \<Rightarrow> s \<noteq> [])"

definition or_string :: "string option \<Rightarrow> string \<Rightarrow> string" where
  \<comment> \<open>\<open>v || fallback\<close> for a string-valued \<open>v\<close>\<close>
  "or_string v fallback = (case v of None \<Rightarrow> fallback | Some s \<Rightarrow> if s = [] then fallback else s)"

definition or_number :: "real option \<Rightarrow> real \<Rightarrow> real" where
  \<comment> \<open>\<open>v || fallback\<close> for a number-valued \<open>v\<close>\<close>
  "or_number v fallback = (case v of None \<Rightarrow> fallback | Some x \<Rightarrow> if x = 0 then fallback else x)"

definition startsWith :: "string \<Rightarrow> string \<Rightarrow> bool" where
  \<comment> \<open>\<open>s.startsWith(p)\<close>\<close>
  "startsWith s p = (take (length p) s = p)"

definition Math_round :: "real \<Rightarrow> int" where
  \<comment> \<open>\<open>Math.round\<close>: the nearest integer, a tie going up\<close>
  "Math_round x = \<lfloor>x + 1 / 2\<rfloor>"

fun digits :: "nat \<Rightarrow> string" where
  "digits n =
     (if n < 10 then [''0123456789'' ! n]
      else digits (n div 10) @ [''0123456789'' ! (n mod 10)])"

declare digits.simps [simp del]

definition String_of_int :: "int \<Rightarrow> string" where
  \<comment> \<open>an integer inside a template literal or a JSX text node\<close>
  "String_of_int i = (if i < 0 then ''-'' @ digits (nat (- i)) else digits (nat i))"

section \<open>Quality tiers\<close>

text \<open>
  \<open>getQualityColor\<close> of the image-analysis view (PoseAnalysis.tsx), and the same
  two-threshold conditional written inline in the session table of the progress view.
  The tiers are the colour names the components hand to the widget library.
\<close>

definition getQualityColor :: "real \<Rightarrow> string" where
  "getQualityColor score =
     (if score > 0.8 then ''success''
      else if score > 0.6 then ''warning''
      else ''error'')"

definition session_quality_color :: "real \<Rightarrow> string" where
  \<comment> \<open>\<open>session.quality > 0.8 ? 'success' : session.quality > 0.6 ? 'warning' : 'error'\<close>\<close>
  "session_quality_color quality =
     (if quality > 0.8 then ''success'' else (if quality > 0.6 then ''warning'' else ''error''))"

section \<open>HTTP transport\<close>

text \<open>
  What a component hands to axios, and what axios hands back.  A rejected call carries
  an error whose \<open>response\<close> may be missing (network failure, timeout) and whose
  payload may or may not have a \<open>detail\<close> field; the components read it as
  \<open>err.response?.data?.detail\<close>.
\<close>

record File =
  file_name :: string
  file_type :: string
  file_size :: nat

datatype http_method = GET | POST | DELETE

text \<open>
  A request body is empty, a multipart form with one file, or the JSON object of
  \<open>trackPlayerProgress\<close>: the player id and the analysis data, the latter as its JSON text.
\<close>

datatype body = NoBody | FormData File | PlayerProgressBody string string

record request =
  http_method :: http_method
  url :: string
  headers :: "string \<rightharpoonup> string"
  body :: body
  timeout :: "nat option"

datatype axios_error = NoResponse | ErrorResponse "string option"

definition error_detail :: "axios_error \<Rightarrow> string option" where
  \<comment> \<open>\<open>err.response?.data?.detail\<close>\<close>
  "error_detail err = (case err of NoResponse \<Rightarrow> None | ErrorResponse d \<Rightarrow> d)"

record progress_event =
  loaded :: nat
  total :: "nat option"

record upload_response =
  filename :: string
  file_path :: string
  response_file_size :: nat
  upload_time :: string

text \<open>One transfer as the transport reports it: its progress events, then how it settles.\<close>

record transfer =
  events :: "progress_event list"
  outcome :: "axios_error + upload_response"

definition axios_post :: "string \<Rightarrow> body \<Rightarrow> (string \<rightharpoonup> string) \<Rightarrow> request" where
  \<comment> \<open>\<open>axios.post(url, data, {headers})\<close> on the global axios instance: no interceptor is
      registered on it and it has no timeout\<close>
  "axios_post u d hs = \<lparr>http_method = POST, url = u, headers = hs, body = d, timeout = None\<rparr>"

section \<open>Upload widget (FileUpload)\<close>

text \<open>
  The component keeps four state cells and changes them only through their setters.
  \<open>onDrop\<close> is an async function: it runs up to the \<open>await\<close>, the transport
  then calls \<open>onUploadProgress\<close> once per progress event, and the rest of the body runs
  when the call settles.  Each part is modelled by the list of actions it performs, in
  order; \<open>run_upload\<close> replays a list on the state.  (\<open>upload_error\<close> is the cell the
  source calls \<open>error\<close>.)
\<close>

record upload_state =
  uploading :: bool
  uploadProgress :: int
  uploadResult :: "upload_response option"
  upload_error :: "string option"

datatype upload_action =
    SetUploading bool
  | SetUploadProgress int
  | SetUploadResult "upload_response option"
  | SetError "string option"
  | AxiosPost request
  | OnFileUpload string string

fun apply_upload_action :: "upload_action \<Rightarrow> upload_state \<Rightarrow> upload_state" where
  "apply_upload_action (SetUploading b) st = st\<lparr>uploading := b\<rparr>"
| "apply_upload_action (SetUploadProgress p) st = st\<lparr>uploadProgress := p\<rparr>"
| "apply_upload_action (SetUploadResult r) st = st\<lparr>uploadResult := r\<rparr>"
| "apply_upload_action (SetError e) st = st\<lparr>upload_error := e\<rparr>"
| "apply_upload_action (AxiosPost r) st = st"
| "apply_upload_action (OnFileUpload f k) st = st"

definition run_upload :: "upload_action list \<Rightarrow> upload_state \<Rightarrow> upload_state" where
  "run_upload acts st = fold apply_upload_action acts st"

fun requests :: "upload_action list \<Rightarrow> request list" where
  "requests [] = []"
| "requests (AxiosPost r # acts) = r # requests acts"
| "requests (_ # acts) = requests acts"

fun hook_calls :: "upload_action list \<Rightarrow> (string \<times> string) list" where
  "hook_calls [] = []"
| "hook_calls (OnFileUpload f k # acts) = (f, k) # hook_calls acts"
| "hook_calls (_ # acts) = hook_calls acts"

fun progress_values :: "upload_action list \<Rightarrow> int list" where
  "progress_values [] = []"
| "progress_values (SetUploadProgress p # acts) = p # progress_values acts"
| "progress_values (_ # acts) = progress_values acts"

definition isVideo :: "File \<Rightarrow> bool" where
  "isVideo file = startsWith (file_type file) ''video/''"

definition endpoint :: "File \<Rightarrow> string" where
  "endpoint file = (if isVideo file then ''/upload-video'' else ''/upload-image'')"

definition upload_request :: "File \<Rightarrow> request" where
  "upload_request file =
     axios_post (''http://localhost:8000/api/v1/pose'' @ endpoint file) (FormData file)
       [''Content-Type'' \<mapsto> ''multipart/form-data'']"

definition progress_percent :: "progress_event \<Rightarrow> int" where
  \<comment> \<open>\<open>progressEvent.total ? Math.round((progressEvent.loaded * 100) / progressEvent.total) : 0\<close>\<close>
  "progress_percent ev =
     (case total ev of
        None \<Rightarrow> 0
      | Some t \<Rightarrow> if t = 0 then 0 else Math_round ((real (loaded ev) * 100) / real t))"

definition onDrop_begin :: "File list \<Rightarrow> upload_action list" where
  \<comment> \<open>\<open>onDrop\<close> up to the \<open>await\<close>\<close>
  "onDrop_begin acceptedFiles =
     (case acceptedFiles of
        [] \<Rightarrow> []
      | file # _ \<Rightarrow>
          [SetUploading True, SetError None, SetUploadResult None,
           AxiosPost (upload_request file)])"

definition onUploadProgress :: "progress_event \<Rightarrow> upload_action list" where
  "onUploadProgress progressEvent = [SetUploadProgress (progress_percent progressEvent)]"

definition onDrop_settle :: "File \<Rightarrow> axios_error + upload_response \<Rightarrow> upload_action list" where
  \<comment> \<open>\<open>onDrop\<close> after the \<open>await\<close>: the rest of \<open>try\<close> or the \<open>catch\<close>, then \<open>finally\<close>\<close>
  "onDrop_settle file res =
     (case res of
        Inr data \<Rightarrow>
          [SetUploadResult (Some data),
           OnFileUpload (filename data) (if isVideo file then ''video'' else ''image'')]
      | Inl err \<Rightarrow> [SetError (Some (or_string (error_detail err) ''Upload failed''))])
     @ [SetUploading False, SetUploadProgress 0]"

definition onDrop :: "File list \<Rightarrow> transfer \<Rightarrow> upload_action list" where
  \<comment> \<open>one whole run of \<open>onDrop\<close> against a transfer\<close>
  "onDrop acceptedFiles t =
     (case acceptedFiles of
        [] \<Rightarrow> []
      | file # _ \<Rightarrow>
          onDrop_begin acceptedFiles
          @ concat (map onUploadProgress (events t))
          @ onDrop_settle file (outcome t))"

definition error_region :: "upload_state \<Rightarrow> string option" where
  \<comment> \<open>\<open>{error && <Alert severity="error">{error}</Alert>}\<close>: the text shown, if any\<close>
  "error_region st = (if truthy_string (upload_error st) then upload_error st else None)"

text \<open>
  The component hands its handler to the drop zone together with three options: an
  accept table (two MIME patterns, each with a list of extensions), a size ceiling and
  \<open>multiple: false\<close>.
\<close>

record dropzone_options =
  accept :: "(string \<times> string list) list"
  maxSize :: nat
  multiple :: bool

definition dropzone_config :: dropzone_options where
  "dropzone_config =
     \<lparr>accept =
        [(''image/*'', [''.png'', ''.jpg'', ''.jpeg'', ''.bmp'']),
         (''video/*'', [''.mp4'', ''.avi'', ''.mov'', ''.mkv''])],
      maxSize = 50 * 1024 * 1024,
      multiple = False\<rparr>"

definition drop_files :: "(File list \<Rightarrow> File list) \<Rightarrow> File list \<Rightarrow> upload_action list" where
  \<comment> \<open>a drop on the zone, up to the \<open>await\<close> of the handler; \<open>dropzone\<close> maps the files
      dropped to the files the handler is called with\<close>
  "drop_files dropzone files = onDrop_begin (dropzone files)"

text \<open>
  The drop-zone library (react-dropzone, with attr-accept for the type test) is not part
  of the sources.  The definitions below follow what the library does with these
  options.  The accept table is flattened to one list of patterns, keys and extensions
  alike.  A file passes the type test when one pattern matches it: an extension
  pattern matches the end of the lower-cased file name, a \<open>type/*\<close> pattern matches the
  part of the lower-cased MIME type before its slash, any other pattern the whole MIME
  type; the placeholder type \<open>application/x-moz-file\<close> always passes.  A file passes
  the size test when it is not larger than the ceiling.  With \<open>multiple: false\<close>, a drop
  of which more than one file passes is rejected as a whole.  The handler is called with
  the accepted files; the rejected ones go to a second argument the handler of this
  component does not take.  (Letters outside ASCII are left as they are by
  \<open>toLowerCase\<close> here.)
\<close>

definition toLowerCase :: "string \<Rightarrow> string" where
  "toLowerCase s =
     map (\<lambda>c. case map_of (zip ''ABCDEFGHIJKLMNOPQRSTUVWXYZ'' ''abcdefghijklmnopqrstuvwxyz'') c of
                None \<Rightarrow> c
              | Some l \<Rightarrow> l) s"

definition endsWith :: "string \<Rightarrow> string \<Rightarrow> bool" where
  \<comment> \<open>\<open>s.endsWith(p)\<close>\<close>
  "endsWith s p = (length p \<le> length s \<and> drop (length s - length p) s = p)"

definition baseMimeType :: "string \<Rightarrow> string" where
  \<comment> \<open>the MIME type with its first slash and all that follows removed\<close>
  "baseMimeType mimeType = takeWhile (\<lambda>c. c \<noteq> CHR ''/'') mimeType"

definition acceptPropAsAcceptAttr :: "(string \<times> string list) list \<Rightarrow> string list" where
  "acceptPropAsAcceptAttr tab = concat (map (\<lambda>(mimeType, ext). mimeType # ext) tab)"

definition accepts :: "File \<Rightarrow> string list \<Rightarrow> bool" where
  "accepts file acceptedFiles =
     (acceptedFiles = [] \<or>
      list_ex
        (\<lambda>ty. let validType = toLowerCase ty in
           if take 1 validType = ''.'' then endsWith (toLowerCase (file_name file)) validType
           else if endsWith validType ''/*''
             then baseMimeType (toLowerCase (file_type file)) = baseMimeType validType
           else toLowerCase (file_type file) = validType)
        acceptedFiles)"

definition fileAccepted :: "File \<Rightarrow> string list \<Rightarrow> bool" where
  "fileAccepted file acc = (file_type file = ''application/x-moz-file'' \<or> accepts file acc)"

definition fileMatchSize :: "File \<Rightarrow> nat \<Rightarrow> bool" where
  \<comment> \<open>no minimum is configured; \<open>limit\<close> is the \<open>maxSize\<close> option\<close>
  "fileMatchSize file limit = (\<not> file_size file > limit)"

definition useDropzone :: "dropzone_options \<Rightarrow> File list \<Rightarrow> File list" where
  \<comment> \<open>the files of a drop that the handler is called with\<close>
  "useDropzone opts files =
     (let acceptedFiles =
            filter (\<lambda>file. fileAccepted file (acceptPropAsAcceptAttr (accept opts))
                      \<and> fileMatchSize file (maxSize opts)) files
      in if \<not> multiple opts \<and> length acceptedFiles > 1 then [] else acceptedFiles)"

definition configured_dropzone :: "File list \<Rightarrow> File list" where
  \<comment> \<open>the drop zone of the upload widget\<close>
  "configured_dropzone files = useDropzone dropzone_config files"

definition passes :: "File \<Rightarrow> bool" where
  \<comment> \<open>what the two tests come to under the options of the upload widget, spelled out;
      \<open>configured_dropzone_eq\<close> below shows that it is\<close>
  "passes f =
     ((file_type f = ''application/x-moz-file'' \<or>
       baseMimeType (toLowerCase (file_type f)) = ''image'' \<or>
       baseMimeType (toLowerCase (file_type f)) = ''video'' \<or>
       list_ex (endsWith (toLowerCase (file_name f)))
         [''.png'', ''.jpg'', ''.jpeg'', ''.bmp'', ''.mp4'', ''.avi'', ''.mov'', ''.mkv''])
      \<and> file_size f \<le> 50 * 1024 * 1024)"

section \<open>Top-level component (App)\<close>

record 'r app_state =
  activeTab :: nat
  uploadedFile :: "string option"
  analysisResult :: "'r option"

definition handleFileUpload :: "string \<Rightarrow> 'r app_state \<Rightarrow> 'r app_state" where
  "handleFileUpload fname st = st\<lparr>uploadedFile := Some fname, activeTab := 1\<rparr>"

definition onFileUpload :: "string \<Rightarrow> string \<Rightarrow> 'r app_state \<Rightarrow> 'r app_state" where
  \<comment> \<open>\<open><FileUpload onFileUpload={handleFileUpload} />\<close>: the widget calls the hook with
      \<open>(filename, fileType)\<close>; the handler declares one parameter, so the second argument
      is dropped\<close>
  "onFileUpload fname fileType st = handleFileUpload fname st"

definition handleTabChange :: "nat \<Rightarrow> 'r app_state \<Rightarrow> 'r app_state" where
  "handleTabChange newValue st = st\<lparr>activeTab := newValue\<rparr>"

definition handleAnalysisComplete :: "'r \<Rightarrow> 'r app_state \<Rightarrow> 'r app_state" where
  "handleAnalysisComplete r st = st\<lparr>analysisResult := Some r\<rparr>"

datatype 'r view =
    FileUploadView
  | PoseAnalysisView "string option"
  | VideoAnalysisView "string option"
  | PlayerProgressView "'r option"

definition TabPanel :: "nat \<Rightarrow> nat \<Rightarrow> 'v \<Rightarrow> 'v option" where
  \<comment> \<open>\<open>{value === index && children}\<close>\<close>
  "TabPanel v i children = (if v = i then Some children else None)"

definition visible_views :: "'r app_state \<Rightarrow> 'r view list" where
  \<comment> \<open>the four tab panels in order, keeping those that are shown\<close>
  "visible_views st =
     List.map_filter (\<lambda>x. x)
       [TabPanel (activeTab st) 0 FileUploadView,
        TabPanel (activeTab st) 1 (PoseAnalysisView (uploadedFile st)),
        TabPanel (activeTab st) 2 (VideoAnalysisView (uploadedFile st)),
        TabPanel (activeTab st) 3 (PlayerProgressView (analysisResult st))]"

section \<open>API client (services/api.ts)\<close>

text \<open>
  \<open>apiClient\<close> is an axios instance of its own, with a base URL, a five-minute timeout,
  a JSON content type and a request interceptor that reads the token from
  \<open>localStorage\<close>.  Every function of \<open>poseAnalysisAPI\<close> goes through it; each is
  modelled by the request it sends.
\<close>

type_synonym localStorage = "string \<rightharpoonup> string"

definition request_interceptor :: "localStorage \<Rightarrow> request \<Rightarrow> request" where
  "request_interceptor storage config =
     (case storage ''auth_token'' of
        None \<Rightarrow> config
      | Some token \<Rightarrow>
          if token = [] then config
          else config\<lparr>headers := (headers config)(''Authorization'' \<mapsto> ''Bearer '' @ token)\<rparr>)"

definition API_BASE_URL :: "string option \<Rightarrow> string" where
  \<comment> \<open>\<open>process.env.REACT_APP_API_URL || 'http://localhost:8000'\<close>\<close>
  "API_BASE_URL env = or_string env ''http://localhost:8000''"

definition apiClient ::
  "localStorage \<Rightarrow> string option \<Rightarrow> http_method \<Rightarrow> string \<Rightarrow> body \<Rightarrow> (string \<rightharpoonup> string) \<Rightarrow> request" where
  \<comment> \<open>a call on the instance: the instance's defaults, the call's own headers over them,
      then the request interceptor\<close>
  "apiClient storage env m path d hs =
     request_interceptor storage
       \<lparr>http_method = m, url = API_BASE_URL env @ ''/api/v1'' @ path,
        headers = [''Content-Type'' \<mapsto> ''application/json''] ++ hs,
        body = d, timeout = Some 300000\<rparr>"

definition uploadImage :: "localStorage \<Rightarrow> string option \<Rightarrow> File \<Rightarrow> request" where
  "uploadImage storage env file =
     apiClient storage env POST ''/pose/upload-image'' (FormData file)
       [''Content-Type'' \<mapsto> ''multipart/form-data'']"

definition uploadVideo :: "localStorage \<Rightarrow> string option \<Rightarrow> File \<Rightarrow> request" where
  "uploadVideo storage env file =
     apiClient storage env POST ''/pose/upload-video'' (FormData file)
       [''Content-Type'' \<mapsto> ''multipart/form-data'']"

definition uploadVideo_onUploadProgress :: "bool \<Rightarrow> progress_event \<Rightarrow> int list" where
  \<comment> \<open>the values one progress event makes \<open>uploadVideo\<close> pass to \<open>onProgress\<close>;
      the flag says whether the caller gave an \<open>onProgress\<close>\<close>
  "uploadVideo_onUploadProgress onProgress progressEvent =
     (case total progressEvent of
        None \<Rightarrow> []
      | Some t \<Rightarrow>
          if onProgress \<and> t \<noteq> 0
          then [Math_round ((real (loaded progressEvent) * 100) / real t)]
          else [])"

definition uploadVideo_progress :: "progress_event list \<Rightarrow> int list" where
  \<comment> \<open>everything \<open>onProgress\<close> receives during one upload\<close>
  "uploadVideo_progress evs = concat (map (uploadVideo_onUploadProgress True) evs)"

definition percent_of :: "nat \<Rightarrow> nat \<Rightarrow> int" where
  \<comment> \<open>\<open>Math.round((loaded * 100) / total)\<close>, the expression both progress callbacks
      compute, as a function of the total and the bytes loaded\<close>
  "percent_of t l = Math_round ((real l * 100) / real t)"

definition analyzeImage :: "localStorage \<Rightarrow> string option \<Rightarrow> string \<Rightarrow> request" where
  "analyzeImage storage env fname =
     apiClient storage env POST (''/pose/analyze-image/'' @ fname) NoBody Map.empty"

definition analyzeVideo :: "localStorage \<Rightarrow> string option \<Rightarrow> string \<Rightarrow> request" where
  "analyzeVideo storage env fname =
     apiClient storage env POST (''/pose/analyze-video/'' @ fname) NoBody Map.empty"

definition getPoseClasses :: "localStorage \<Rightarrow> string option \<Rightarrow> request" where
  "getPoseClasses storage env = apiClient storage env GET ''/pose/pose-classes'' NoBody Map.empty"

definition getAnalysisHistory :: "localStorage \<Rightarrow> string option \<Rightarrow> int option \<Rightarrow> request" where
  \<comment> \<open>\<open>limit\<close> defaults to 10 when the caller gives none\<close>
  "getAnalysisHistory storage env limit =
     apiClient storage env GET
       (''/pose/analysis-history?limit=''
        @ String_of_int (case limit of None \<Rightarrow> 10 | Some n \<Rightarrow> n))
       NoBody Map.empty"

definition trackPlayerProgress ::
  "localStorage \<Rightarrow> string option \<Rightarrow> string \<Rightarrow> string \<Rightarrow> request" where
  "trackPlayerProgress storage env playerId analysisData =
     apiClient storage env POST ''/pose/player-progress''
       (PlayerProgressBody playerId analysisData) Map.empty"

definition getPlayerProgress :: "localStorage \<Rightarrow> string option \<Rightarrow> string \<Rightarrow> request" where
  "getPlayerProgress storage env playerId =
     apiClient storage env GET (''/pose/player-progress/'' @ playerId) NoBody Map.empty"

definition cleanupFile :: "localStorage \<Rightarrow> string option \<Rightarrow> string \<Rightarrow> request" where
  "cleanupFile storage env fname =
     apiClient storage env DELETE (''/pose/cleanup/'' @ fname) NoBody Map.empty"

section \<open>Analysis views (PoseAnalysis, VideoAnalysis)\<close>

text \<open>
  Both views keep three state cells and start their call from a button.  As for the
  upload widget, the handler is split at its \<open>await\<close>; \<open>'r\<close> is the response payload.
  (\<open>analysis_error\<close> is the cell the source calls \<open>error\<close>.)
\<close>

record 'r analysis_state =
  analyzing :: bool
  result :: "'r option"
  analysis_error :: "string option"

datatype 'r analysis_action =
    SetAnalyzing bool
  | SetAnalysisError "string option"
  | SetResult 'r
  | Post request
  | OnAnalysisComplete 'r

fun apply_analysis_action :: "'r analysis_action \<Rightarrow> 'r analysis_state \<Rightarrow> 'r analysis_state" where
  "apply_analysis_action (SetAnalyzing b) st = st\<lparr>analyzing := b\<rparr>"
| "apply_analysis_action (SetAnalysisError e) st = st\<lparr>analysis_error := e\<rparr>"
| "apply_analysis_action (SetResult r) st = st\<lparr>result := Some r\<rparr>"
| "apply_analysis_action (Post q) st = st"
| "apply_analysis_action (OnAnalysisComplete r) st = st"

definition run_analysis :: "'r analysis_action list \<Rightarrow> 'r analysis_state \<Rightarrow> 'r analysis_state" where
  "run_analysis acts st = fold apply_analysis_action acts st"


definition analyzeFile_request :: "string \<Rightarrow> request" where
  "analyzeFile_request fname =
     axios_post (''http://localhost:8000/api/v1/pose/analyze-image/'' @ fname) NoBody Map.empty"

definition analyzeFile_begin :: "string option \<Rightarrow> 'r analysis_action list" where
  \<comment> \<open>\<open>analyzeFile\<close> of PoseAnalysis up to the \<open>await\<close>\<close>
  "analyzeFile_begin uploaded =
     (case uploaded of
        None \<Rightarrow> []
      | Some fname \<Rightarrow>
          if fname = [] then []
          else [SetAnalyzing True, SetAnalysisError None, Post (analyzeFile_request fname)])"

definition analyzeFile_settle :: "axios_error + 'r \<Rightarrow> 'r analysis_action list" where
  "analyzeFile_settle res =
     (case res of
        Inr data \<Rightarrow> [SetResult data, OnAnalysisComplete data]
      | Inl err \<Rightarrow> [SetAnalysisError (Some (or_string (error_detail err) ''Analysis failed''))])
     @ [SetAnalyzing False]"

definition analyzeFile :: "string option \<Rightarrow> axios_error + 'r \<Rightarrow> 'r analysis_action list" where
  \<comment> \<open>one whole run of \<open>analyzeFile\<close> against the way its call settles\<close>
  "analyzeFile uploaded res =
     (if truthy_string uploaded then analyzeFile_begin uploaded @ analyzeFile_settle res else [])"

definition analyzeVideo_request :: "string \<Rightarrow> request" where
  "analyzeVideo_request fname =
     axios_post (''http://localhost:8000/api/v1/pose/analyze-video/'' @ fname) NoBody Map.empty"

definition analyzeVideo_begin :: "string option \<Rightarrow> 'r analysis_action list" where
  \<comment> \<open>\<open>analyzeVideo\<close> of VideoAnalysis up to the \<open>await\<close>\<close>
  "analyzeVideo_begin uploaded =
     (case uploaded of
        None \<Rightarrow> []
      | Some fname \<Rightarrow>
          if fname = [] then []
          else [SetAnalyzing True, SetAnalysisError None, Post (analyzeVideo_request fname)])"

definition analyzeVideo_settle :: "axios_error + 'r \<Rightarrow> 'r analysis_action list" where
  "analyzeVideo_settle res =
     (case res of
        Inr data \<Rightarrow> [SetResult data, OnAnalysisComplete data]
      | Inl err \<Rightarrow>
          [SetAnalysisError (Some (or_string (error_detail err) ''Video analysis failed''))])
     @ [SetAnalyzing False]"

definition analyzeVideo_run :: "string option \<Rightarrow> axios_error + 'r \<Rightarrow> 'r analysis_action list" where
  \<comment> \<open>one whole run of \<open>analyzeVideo\<close> of the view against the way its call settles\<close>
  "analyzeVideo_run uploaded res =
     (if truthy_string uploaded then analyzeVideo_begin uploaded @ analyzeVideo_settle res else [])"

definition analysis_error_region :: "'r analysis_state \<Rightarrow> string option" where
  \<comment> \<open>\<open>{error && <Alert severity="error">{error}</Alert>}\<close>: the text shown, if any\<close>
  "analysis_error_region st =
     (if truthy_string (analysis_error st) then analysis_error st else None)"

section \<open>Rendering of numeric metrics\<close>

text \<open>
  The views read the response as a bag of optional fields.  A field that is missing from
  the response is \<open>None\<close>; \<open>a?.b\<close> of a missing \<open>a\<close> is missing.  \<open>toFixed\<close> is
  the number formatter of the language, a parameter of the model.  Each function below
  is the text of one cell, \<open>None\<close> when the cell is not rendered.  A product such as
  \<open>score * 100\<close> is the exact one here; the code rounds the product of two doubles,
  which for a score that is there can fall on the other side of a half.  A field that
  is there with the value \<open>null\<close> is outside the model.
\<close>

record TopDownPrediction =
  pose_class :: "string option"
  confidence :: "real option"

record PoseMetrics =
  balance_ratio :: "real option"
  torso_angle :: "real option"
  body_symmetry :: "real option"
  shoulder_width :: "real option"

record PoseDetail =
  pose_metrics :: "PoseMetrics option"

record ImageAnalysis =
  top_down_prediction :: "TopDownPrediction option"
  quality_score :: "real option"
  analysis_detail :: "PoseDetail option"

record MotionAnalysis =
  smoothness_score :: "real option"
  rhythm_consistency :: "real option"
  average_velocity :: "real option"
  max_velocity :: "real option"

record VideoAnalysisData =
  motion_analysis :: "MotionAnalysis option"
  sequence_length :: "nat option"

definition toFixed_or_NA :: "(real \<Rightarrow> nat \<Rightarrow> string) \<Rightarrow> real option \<Rightarrow> nat \<Rightarrow> string" where
  \<comment> \<open>\<open>v?.toFixed(d) || 'N/A'\<close>\<close>
  "toFixed_or_NA toFixed v d = or_string (map_option (\<lambda>x. toFixed x d) v) ''N/A''"

definition degree_suffix :: string where
  \<comment> \<open>the characters that follow the torso angle in the source text, as bytes\<close>
  "degree_suffix = [CHR 0xC3, CHR 0x82, CHR 0xC2, CHR 0xB0]"

definition confidence_text :: "ImageAnalysis \<Rightarrow> string" where
  \<comment> \<open>\<open>Confidence: {Math.round((result.analysis.top_down_prediction?.confidence || 0) * 100)}%\<close>\<close>
  "confidence_text a =
     ''Confidence: ''
     @ String_of_int (Math_round (or_number (Option.bind (top_down_prediction a) confidence) 0 * 100))
     @ ''%''"

definition score_text :: "ImageAnalysis \<Rightarrow> string" where
  \<comment> \<open>\<open>Score: {Math.round((result.analysis.quality_score || 0) * 100)}/100\<close>\<close>
  "score_text a =
     ''Score: '' @ String_of_int (Math_round (or_number (quality_score a) 0 * 100)) @ ''/100''"

definition score_color :: "ImageAnalysis \<Rightarrow> string" where
  \<comment> \<open>\<open>getQualityColor(result.analysis.quality_score || 0)\<close>\<close>
  "score_color a = getQualityColor (or_number (quality_score a) 0)"

definition balance_ratio_cell :: "(real \<Rightarrow> nat \<Rightarrow> string) \<Rightarrow> PoseMetrics \<Rightarrow> string" where
  "balance_ratio_cell toFixed m = toFixed_or_NA toFixed (balance_ratio m) 2"

definition torso_angle_cell :: "(real \<Rightarrow> nat \<Rightarrow> string) \<Rightarrow> PoseMetrics \<Rightarrow> string" where
  "torso_angle_cell toFixed m = toFixed_or_NA toFixed (torso_angle m) 1 @ degree_suffix"

definition body_symmetry_cell :: "(real \<Rightarrow> nat \<Rightarrow> string) \<Rightarrow> PoseMetrics \<Rightarrow> string" where
  "body_symmetry_cell toFixed m = toFixed_or_NA toFixed (body_symmetry m) 3"

definition shoulder_width_cell :: "(real \<Rightarrow> nat \<Rightarrow> string) \<Rightarrow> PoseMetrics \<Rightarrow> string" where
  "shoulder_width_cell toFixed m = toFixed_or_NA toFixed (shoulder_width m) 3"

definition pose_metric_cells :: "(real \<Rightarrow> nat \<Rightarrow> string) \<Rightarrow> ImageAnalysis \<Rightarrow> string list option" where
  \<comment> \<open>the Pose Metrics card, rendered when \<open>result.analysis.analysis?.pose_metrics\<close> is
      there\<close>
  "pose_metric_cells toFixed a =
     (case Option.bind (analysis_detail a) pose_metrics of
        None \<Rightarrow> None
      | Some m \<Rightarrow>
          Some [balance_ratio_cell toFixed m, torso_angle_cell toFixed m,
                body_symmetry_cell toFixed m, shoulder_width_cell toFixed m])"

definition percent_text :: "real option \<Rightarrow> string" where
  \<comment> \<open>\<open>{Math.round(v * 100)}%\<close> with no default: a missing \<open>v\<close> makes the product, and
      so the rounded value, \<open>NaN\<close>\<close>
  "percent_text v =
     (case v of None \<Rightarrow> ''NaN'' | Some x \<Rightarrow> String_of_int (Math_round (x * 100))) @ ''%''"

definition smoothness_text :: "MotionAnalysis \<Rightarrow> string" where
  "smoothness_text m = percent_text (smoothness_score m)"

definition rhythm_text :: "MotionAnalysis \<Rightarrow> string" where
  "rhythm_text m = percent_text (rhythm_consistency m)"

definition average_velocity_cell :: "(real \<Rightarrow> nat \<Rightarrow> string) \<Rightarrow> MotionAnalysis \<Rightarrow> string" where
  "average_velocity_cell toFixed m = toFixed_or_NA toFixed (average_velocity m) 4"

definition max_velocity_cell :: "(real \<Rightarrow> nat \<Rightarrow> string) \<Rightarrow> MotionAnalysis \<Rightarrow> string" where
  "max_velocity_cell toFixed m = toFixed_or_NA toFixed (max_velocity m) 4"

definition frames_text :: "VideoAnalysisData \<Rightarrow> string option" where
  \<comment> \<open>\<open>{result.analysis.sequence_length && (... Analyzed {n} frames ...)}\<close>: a zero count is
      itself rendered\<close>
  "frames_text a =
     (case sequence_length a of
        None \<Rightarrow> None
      | Some n \<Rightarrow>
          if n = 0 then Some ''0''
          else Some (''Analyzed '' @ String_of_int (int n) @ '' frames''))"

section \<open>Properties\<close>

subsection \<open>Quality tiers\<close>

text \<open>
  Claim C1.  The colour tier is a function of the score alone: it is the success tier
  exactly when the score is above 0.8, the warning tier exactly when the score is above
  0.6 and at most 0.8, and the error tier exactly when the score is at most 0.6.  The
  session table of the progress view selects its tier by the same thresholds.
\<close>

theorem getQualityColor_tiers:
  "(getQualityColor s = ''success'' \<longleftrightarrow> s > 0.8) \<and>
   (getQualityColor s = ''warning'' \<longleftrightarrow> 0.6 < s \<and> s \<le> 0.8) \<and>
   (getQualityColor s = ''error'' \<longleftrightarrow> s \<le> 0.6) \<and>
   session_quality_color s = getQualityColor s"
  by (simp add: getQualityColor_def session_quality_color_def)

theorem getQualityColor_tiers_witness:
  "getQualityColor 0.8 = ''warning'' \<and> getQualityColor 0.6 = ''error'' \<and>
   getQualityColor 0.81 = ''success'' \<and> session_quality_color 0.8 = ''warning''"
  using getQualityColor_tiers [of "0.8"] getQualityColor_tiers [of "0.6"]
    getQualityColor_tiers [of "0.81"]
  by simp

subsection \<open>Upload widget\<close>

text \<open>What a whole run of the handler requests, reports and writes to the progress cell.\<close>

lemma requests_append: "requests (xs @ ys) = requests xs @ requests ys"
  by (induction xs rule: requests.induct) simp_all

lemma hook_calls_append: "hook_calls (xs @ ys) = hook_calls xs @ hook_calls ys"
  by (induction xs rule: hook_calls.induct) simp_all

lemma progress_values_append:
  "progress_values (xs @ ys) = progress_values xs @ progress_values ys"
  by (induction xs rule: progress_values.induct) simp_all

lemma requests_progress: "requests (concat (map onUploadProgress evs)) = []"
  by (induction evs) (simp_all add: onUploadProgress_def)

lemma hook_calls_progress: "hook_calls (concat (map onUploadProgress evs)) = []"
  by (induction evs) (simp_all add: onUploadProgress_def)

lemma progress_values_progress:
  "progress_values (concat (map onUploadProgress evs)) = map progress_percent evs"
  by (induction evs) (simp_all add: onUploadProgress_def)

lemma onDrop_progress_values:
  "progress_values (onDrop (file # rest) t) = map progress_percent (events t) @ [0]"
  by (simp add: onDrop_def onDrop_begin_def onDrop_settle_def progress_values_append
      progress_values_progress split: sum.split)

text \<open>
  Claim C2.  When an upload succeeds, the completion hook is called once, with the
  filename of the response body; the media kind it is given is \<open>video\<close> exactly when
  the MIME type of the uploaded file starts with \<open>video/\<close> (and \<open>image\<close> otherwise),
  and the same test sends the file to the video upload endpoint rather than the image
  one.
\<close>

theorem onDrop_success_reports:
  assumes "outcome t = Inr data"
  shows "map fst (hook_calls (onDrop (file # rest) t)) = [filename data] \<and>
    (map snd (hook_calls (onDrop (file # rest) t)) = [''video'']
       \<longleftrightarrow> startsWith (file_type file) ''video/'') \<and>
    (map snd (hook_calls (onDrop (file # rest) t)) = [''image'']
       \<longleftrightarrow> \<not> startsWith (file_type file) ''video/'') \<and>
    (map url (requests (onDrop (file # rest) t))
         = [''http://localhost:8000/api/v1/pose/upload-video'']
       \<longleftrightarrow> startsWith (file_type file) ''video/'') \<and>
    (map url (requests (onDrop (file # rest) t))
         = [''http://localhost:8000/api/v1/pose/upload-image'']
       \<longleftrightarrow> \<not> startsWith (file_type file) ''video/'')"
  using assms
  by (simp add: onDrop_def onDrop_begin_def onDrop_settle_def requests_append hook_calls_append
      requests_progress hook_calls_progress upload_request_def axios_post_def endpoint_def
      isVideo_def)

theorem onDrop_success_reports_witness:
  "outcome \<lparr>events = [\<lparr>loaded = 5, total = Some 10\<rparr>],
      outcome = Inr \<lparr>filename = ''a1b2.mp4'', file_path = ''uploads/a1b2.mp4'',
        response_file_size = 10, upload_time = ''2024-12-01''\<rparr>\<rparr>
     = Inr \<lparr>filename = ''a1b2.mp4'', file_path = ''uploads/a1b2.mp4'',
        response_file_size = 10, upload_time = ''2024-12-01''\<rparr> \<and>
   map fst (hook_calls (onDrop
      [\<lparr>file_name = ''shot.mp4'', file_type = ''video/mp4'', file_size = 10\<rparr>]
      \<lparr>events = [\<lparr>loaded = 5, total = Some 10\<rparr>],
      outcome = Inr \<lparr>filename = ''a1b2.mp4'', file_path = ''uploads/a1b2.mp4'',
        response_file_size = 10, upload_time = ''2024-12-01''\<rparr>\<rparr>)) = [''a1b2.mp4''] \<and>
   map snd (hook_calls (onDrop
      [\<lparr>file_name = ''shot.mp4'', file_type = ''video/mp4'', file_size = 10\<rparr>]
      \<lparr>events = [\<lparr>loaded = 5, total = Some 10\<rparr>],
      outcome = Inr \<lparr>filename = ''a1b2.mp4'', file_path = ''uploads/a1b2.mp4'',
        response_file_size = 10, upload_time = ''2024-12-01''\<rparr>\<rparr>)) = [''video''] \<and>
   map url (requests (onDrop
      [\<lparr>file_name = ''shot.mp4'', file_type = ''video/mp4'', file_size = 10\<rparr>]
      \<lparr>events = [\<lparr>loaded = 5, total = Some 10\<rparr>],
      outcome = Inr \<lparr>filename = ''a1b2.mp4'', file_path = ''uploads/a1b2.mp4'',
        response_file_size = 10, upload_time = ''2024-12-01''\<rparr>\<rparr>))
     = [''http://localhost:8000/api/v1/pose/upload-video'']"
  using onDrop_success_reports [of "\<lparr>events = [\<lparr>loaded = 5, total = Some 10\<rparr>],
      outcome = Inr \<lparr>filename = ''a1b2.mp4'', file_path = ''uploads/a1b2.mp4'',
        response_file_size = 10, upload_time = ''2024-12-01''\<rparr>\<rparr>"
      "\<lparr>filename = ''a1b2.mp4'', file_path = ''uploads/a1b2.mp4'',
        response_file_size = 10, upload_time = ''2024-12-01''\<rparr>"
      "\<lparr>file_name = ''shot.mp4'', file_type = ''video/mp4'', file_size = 10\<rparr>" "[]"]
  by (simp add: startsWith_def)

text \<open>The drop zone under the options of the widget.\<close>

lemma acceptAttr_config:
  "acceptPropAsAcceptAttr (accept dropzone_config) =
     [''image/*'', ''.png'', ''.jpg'', ''.jpeg'', ''.bmp'',
      ''video/*'', ''.mp4'', ''.avi'', ''.mov'', ''.mkv'']"
  by (simp add: acceptPropAsAcceptAttr_def dropzone_config_def)

lemma fileAccepted_config:
  "fileAccepted f (acceptPropAsAcceptAttr (accept dropzone_config)) \<longleftrightarrow>
     file_type f = ''application/x-moz-file'' \<or>
     baseMimeType (toLowerCase (file_type f)) = ''image'' \<or>
     baseMimeType (toLowerCase (file_type f)) = ''video'' \<or>
     list_ex (endsWith (toLowerCase (file_name f)))
       [''.png'', ''.jpg'', ''.jpeg'', ''.bmp'', ''.mp4'', ''.avi'', ''.mov'', ''.mkv'']"
  unfolding acceptAttr_config fileAccepted_def accepts_def
  by (simp add: toLowerCase_def baseMimeType_def endsWith_def Let_def) blast

lemma configured_dropzone_eq:
  "configured_dropzone files =
     (if length (filter passes files) > 1 then [] else filter passes files)"
proof -
  have size: "maxSize dropzone_config = 50 * 1024 * 1024"
    by (simp add: dropzone_config_def)
  have "(\<lambda>file. fileAccepted file (acceptPropAsAcceptAttr (accept dropzone_config))
                  \<and> fileMatchSize file (maxSize dropzone_config)) = passes"
    by (rule ext) (simp add: fileAccepted_config passes_def fileMatchSize_def size not_less)
  moreover have "\<not> multiple dropzone_config"
    by (simp add: dropzone_config_def)
  ultimately show ?thesis
    by (simp add: configured_dropzone_def useDropzone_def Let_def)
qed

text \<open>
  Claim C7.  The widget has no guard on its \<open>uploading\<close> cell, so a drop while an
  upload is running is handled like any other drop: when the drop zone accepts a file,
  the handler clears error and result, posts the first accepted file and the widget stays
  in the uploading state; only a drop with no accepted file starts no call and leaves the
  state as it was.
\<close>

theorem drop_while_uploading_starts_upload:
  assumes "uploading st"
  shows "(dropzone files = [] \<longrightarrow>
            requests (drop_files dropzone files) = [] \<and>
            run_upload (drop_files dropzone files) st = st) \<and>
         (dropzone files = f # rest \<longrightarrow>
            requests (drop_files dropzone files) = [upload_request f] \<and>
            run_upload (drop_files dropzone files) st
              = st\<lparr>upload_error := None, uploadResult := None\<rparr> \<and>
            uploading (run_upload (drop_files dropzone files) st))"
  using assms by (simp add: drop_files_def onDrop_begin_def run_upload_def)

theorem drop_while_uploading_witness:
  "uploading \<lparr>uploading = True, uploadProgress = 40, uploadResult = None, upload_error = None\<rparr> \<and>
   configured_dropzone [\<lparr>file_name = ''b.png'', file_type = ''image/png'', file_size = 2048\<rparr>]
     = [\<lparr>file_name = ''b.png'', file_type = ''image/png'', file_size = 2048\<rparr>] \<and>
   requests (drop_files configured_dropzone
       [\<lparr>file_name = ''b.png'', file_type = ''image/png'', file_size = 2048\<rparr>])
     = [upload_request \<lparr>file_name = ''b.png'', file_type = ''image/png'', file_size = 2048\<rparr>]"
  using drop_while_uploading_starts_upload
    [of "\<lparr>uploading = True, uploadProgress = 40, uploadResult = None, upload_error = None\<rparr>"
      configured_dropzone
      "[\<lparr>file_name = ''b.png'', file_type = ''image/png'', file_size = 2048\<rparr>]"
      "\<lparr>file_name = ''b.png'', file_type = ''image/png'', file_size = 2048\<rparr>" "[]"]
  by (simp add: configured_dropzone_eq passes_def toLowerCase_def baseMimeType_def)

text \<open>
  The claim as written fails: with an upload running, a second accepted drop sends a
  second request.
\<close>

theorem drop_while_uploading_counterexample:
  "uploading \<lparr>uploading = True, uploadProgress = 40, uploadResult = None, upload_error = None\<rparr> \<and>
   map url (requests (drop_files configured_dropzone
       [\<lparr>file_name = ''b.png'', file_type = ''image/png'', file_size = 2048\<rparr>]))
     = [''http://localhost:8000/api/v1/pose/upload-image'']"
  by (simp add: configured_dropzone_eq passes_def toLowerCase_def baseMimeType_def
      drop_files_def onDrop_begin_def
      upload_request_def axios_post_def endpoint_def isVideo_def startsWith_def)

text \<open>
  Claim C8.  When every file of a drop is larger than 50MB, or has an extension off the
  allow-list together with a MIME type that is neither an image nor a video type (nor
  the placeholder type), the drop zone of the widget accepts none of them: no network
  call is made and the state of the widget, and with it the error region, is left as it
  was, so the widget shows no validation message for the drop.
\<close>

theorem rejected_drop_is_silent:
  assumes "\<forall>f \<in> set files.
      file_size f > 50 * 1024 * 1024 \<or>
      (\<not> list_ex (endsWith (toLowerCase (file_name f)))
           [''.png'', ''.jpg'', ''.jpeg'', ''.bmp'', ''.mp4'', ''.avi'', ''.mov'', ''.mkv''] \<and>
       baseMimeType (toLowerCase (file_type f)) \<noteq> ''image'' \<and>
       baseMimeType (toLowerCase (file_type f)) \<noteq> ''video'' \<and>
       file_type f \<noteq> ''application/x-moz-file'')"
  shows "configured_dropzone files = [] \<and>
         requests (drop_files configured_dropzone files) = [] \<and>
         run_upload (drop_files configured_dropzone files) st = st \<and>
         error_region (run_upload (drop_files configured_dropzone files) st) = error_region st"
proof -
  from assms have "\<forall>f \<in> set files. \<not> passes f"
    unfolding passes_def by (metis not_less)
  then have "filter passes files = []"
    by (simp add: filter_empty_conv)
  then have "configured_dropzone files = []"
    by (simp add: configured_dropzone_eq)
  then show ?thesis
    by (simp add: drop_files_def onDrop_begin_def run_upload_def)
qed

theorem rejected_drop_is_silent_witness:
  "configured_dropzone
      [\<lparr>file_name = ''game.mp4'', file_type = ''video/mp4'', file_size = 60 * 1024 * 1024\<rparr>,
       \<lparr>file_name = ''notes.txt'', file_type = ''text/plain'', file_size = 10\<rparr>] = [] \<and>
   requests (drop_files configured_dropzone
      [\<lparr>file_name = ''game.mp4'', file_type = ''video/mp4'', file_size = 60 * 1024 * 1024\<rparr>,
       \<lparr>file_name = ''notes.txt'', file_type = ''text/plain'', file_size = 10\<rparr>]) = [] \<and>
   error_region (run_upload (drop_files configured_dropzone
      [\<lparr>file_name = ''game.mp4'', file_type = ''video/mp4'', file_size = 60 * 1024 * 1024\<rparr>,
       \<lparr>file_name = ''notes.txt'', file_type = ''text/plain'', file_size = 10\<rparr>])
      \<lparr>uploading = False, uploadProgress = 0, uploadResult = None, upload_error = None\<rparr>) = None"
  using rejected_drop_is_silent [of
      "[\<lparr>file_name = ''game.mp4'', file_type = ''video/mp4'', file_size = 60 * 1024 * 1024\<rparr>,
        \<lparr>file_name = ''notes.txt'', file_type = ''text/plain'', file_size = 10\<rparr>]"
      "\<lparr>uploading = False, uploadProgress = 0, uploadResult = None, upload_error = None\<rparr>"]
  by (simp add: toLowerCase_def baseMimeType_def endsWith_def error_region_def truthy_string_def)

text \<open>
  The claim as written fails twice.  A 60MB video dropped on a fresh widget is rejected,
  and the error region stays empty.  And an extension off the allow-list does not by
  itself keep a file out: \<open>notes.gif\<close> of type \<open>image/gif\<close> matches the \<open>image/*\<close> key
  of the accept table, so it is accepted and posted.
\<close>

theorem rejected_drop_counterexample:
  "configured_dropzone
     [\<lparr>file_name = ''game.mp4'', file_type = ''video/mp4'', file_size = 60 * 1024 * 1024\<rparr>] = [] \<and>
   error_region (run_upload (drop_files configured_dropzone
       [\<lparr>file_name = ''game.mp4'', file_type = ''video/mp4'', file_size = 60 * 1024 * 1024\<rparr>])
       \<lparr>uploading = False, uploadProgress = 0, uploadResult = None, upload_error = None\<rparr>) = None \<and>
   list_ex (endsWith (toLowerCase ''notes.gif''))
       [''.png'', ''.jpg'', ''.jpeg'', ''.bmp'', ''.mp4'', ''.avi'', ''.mov'', ''.mkv''] = False \<and>
   map url (requests (drop_files configured_dropzone
       [\<lparr>file_name = ''notes.gif'', file_type = ''image/gif'', file_size = 10\<rparr>]))
     = [''http://localhost:8000/api/v1/pose/upload-image'']"
  by (simp add: configured_dropzone_eq passes_def toLowerCase_def baseMimeType_def endsWith_def
      drop_files_def onDrop_begin_def run_upload_def error_region_def truthy_string_def
      upload_request_def axios_post_def endpoint_def isVideo_def startsWith_def)

subsection \<open>Progress values\<close>

lemma Math_round_mono: "x \<le> y \<Longrightarrow> Math_round x \<le> Math_round y"
  by (simp add: Math_round_def floor_mono)

lemma Math_round_of_int: "Math_round (of_int k) = k"
  unfolding Math_round_def by linarith

lemma Math_round_bounds:
  assumes "0 \<le> x" and "x \<le> 100"
  shows "0 \<le> Math_round x \<and> Math_round x \<le> 100"
  using assms unfolding Math_round_def by (simp add: floor_le_iff le_floor_iff)

lemma percent_of_mono: "0 < t \<Longrightarrow> l \<le> l' \<Longrightarrow> percent_of t l \<le> percent_of t l'"
  unfolding percent_of_def by (intro Math_round_mono divide_right_mono) simp_all

lemma percent_of_range:
  "0 < t \<Longrightarrow> l \<le> t \<Longrightarrow> 0 \<le> percent_of t l \<and> percent_of t l \<le> 100"
  unfolding percent_of_def by (intro Math_round_bounds) (simp_all add: divide_le_eq)

lemma percent_of_full: "0 < t \<Longrightarrow> percent_of t t = 100"
  using Math_round_of_int [of 100] by (simp add: percent_of_def)

lemma uploadVideo_progress_known:
  "\<forall>e \<in> set evs. total e = Some t \<Longrightarrow> 0 < t \<Longrightarrow>
   uploadVideo_progress evs = map (\<lambda>e. percent_of t (loaded e)) evs"
  by (induction evs)
     (simp_all add: uploadVideo_progress_def uploadVideo_onUploadProgress_def percent_of_def)

lemma progress_percent_known:
  "\<forall>e \<in> set evs. total e = Some t \<Longrightarrow> 0 < t \<Longrightarrow>
   map progress_percent evs = map (\<lambda>e. percent_of t (loaded e)) evs"
  by (simp add: progress_percent_def percent_of_def)

lemma sorted_percent:
  "0 < t \<Longrightarrow> sorted (map loaded evs) \<Longrightarrow> sorted (map (\<lambda>e. percent_of t (loaded e)) evs)"
  by (induction evs) (auto intro: percent_of_mono)

lemma uploadVideo_progress_filter:
  "uploadVideo_progress evs
     = map progress_percent (filter (\<lambda>e. total e \<noteq> None \<and> total e \<noteq> Some 0) evs)"
  by (induction evs)
     (auto simp: uploadVideo_progress_def uploadVideo_onUploadProgress_def progress_percent_def
        split: option.splits)

text \<open>
  Claim C3.  The callbacks only translate what the transport reports.  An event whose
  total is known and not zero makes the API client pass \<open>round(loaded * 100 / total)\<close> to
  the progress callback, and the upload widget computes the same value; an event whose
  total is missing or zero makes the API client pass nothing and the widget show 0; with
  no callback given nothing is passed at all.  So the values of one upload are those
  of its events with a non-zero total, in order.  For a transfer whose events all carry
  the same positive total and a loaded count that never decreases and never exceeds it,
  the values never decrease, each lies between 0 and 100, and the last one is 100 when
  the last event reports the whole total as loaded.
\<close>

theorem upload_progress_monotone:
  "(total e = Some t \<and> t \<noteq> 0 \<longrightarrow>
      uploadVideo_onUploadProgress True e = [Math_round ((real (loaded e) * 100) / real t)] \<and>
      progress_percent e = Math_round ((real (loaded e) * 100) / real t)) \<and>
   (total e = None \<or> total e = Some 0 \<longrightarrow>
      uploadVideo_onUploadProgress True e = [] \<and> progress_percent e = 0) \<and>
   uploadVideo_onUploadProgress False e = [] \<and>
   uploadVideo_progress evs
     = map progress_percent (filter (\<lambda>e. total e \<noteq> None \<and> total e \<noteq> Some 0) evs) \<and>
   ((\<forall>e \<in> set evs. total e = Some T \<and> loaded e \<le> T) \<and> 0 < T \<and> sorted (map loaded evs) \<longrightarrow>
      uploadVideo_progress evs
        = map (\<lambda>e. Math_round ((real (loaded e) * 100) / real T)) evs \<and>
      map progress_percent evs = uploadVideo_progress evs \<and>
      sorted (uploadVideo_progress evs) \<and>
      (\<forall>v \<in> set (uploadVideo_progress evs). 0 \<le> v \<and> v \<le> 100) \<and>
      (evs \<noteq> [] \<and> loaded (last evs) = T \<longrightarrow> last (uploadVideo_progress evs) = 100))"
proof -
  have known_event: "total e = Some t \<and> t \<noteq> 0 \<longrightarrow>
      uploadVideo_onUploadProgress True e = [Math_round ((real (loaded e) * 100) / real t)] \<and>
      progress_percent e = Math_round ((real (loaded e) * 100) / real t)"
    by (simp add: uploadVideo_onUploadProgress_def progress_percent_def)
  have unknown_event: "total e = None \<or> total e = Some 0 \<longrightarrow>
      uploadVideo_onUploadProgress True e = [] \<and> progress_percent e = 0"
    by (auto simp: uploadVideo_onUploadProgress_def progress_percent_def)
  have no_callback: "uploadVideo_onUploadProgress False e = []"
    by (simp add: uploadVideo_onUploadProgress_def split: option.split)
  have filtered: "uploadVideo_progress evs
     = map progress_percent (filter (\<lambda>e. total e \<noteq> None \<and> total e \<noteq> Some 0) evs)"
    by (rule uploadVideo_progress_filter)
  have transfer: "(\<forall>e \<in> set evs. total e = Some T \<and> loaded e \<le> T) \<and> 0 < T
        \<and> sorted (map loaded evs) \<longrightarrow>
      uploadVideo_progress evs
        = map (\<lambda>e. Math_round ((real (loaded e) * 100) / real T)) evs \<and>
      map progress_percent evs = uploadVideo_progress evs \<and>
      sorted (uploadVideo_progress evs) \<and>
      (\<forall>v \<in> set (uploadVideo_progress evs). 0 \<le> v \<and> v \<le> 100) \<and>
      (evs \<noteq> [] \<and> loaded (last evs) = T \<longrightarrow> last (uploadVideo_progress evs) = 100)"
  proof (intro impI, elim conjE)
    assume bounded: "\<forall>e \<in> set evs. total e = Some T \<and> loaded e \<le> T" and pos: "0 < T"
      and ordered: "sorted (map loaded evs)"
    from bounded have known: "\<forall>e \<in> set evs. total e = Some T" by simp
    have vals: "uploadVideo_progress evs = map (\<lambda>e. percent_of T (loaded e)) evs"
      using known pos by (rule uploadVideo_progress_known)
    have widget: "map progress_percent evs = uploadVideo_progress evs"
      using progress_percent_known [OF known pos] vals by simp
    have mono: "sorted (uploadVideo_progress evs)"
      unfolding vals using pos ordered by (rule sorted_percent)
    have range: "\<forall>v \<in> set (uploadVideo_progress evs). 0 \<le> v \<and> v \<le> 100"
      unfolding vals using bounded pos by (auto dest: percent_of_range)
    have final: "evs \<noteq> [] \<and> loaded (last evs) = T \<longrightarrow> last (uploadVideo_progress evs) = 100"
      unfolding vals using pos by (simp add: last_map percent_of_full)
    from vals widget mono range final
    show "uploadVideo_progress evs
        = map (\<lambda>e. Math_round ((real (loaded e) * 100) / real T)) evs \<and>
      map progress_percent evs = uploadVideo_progress evs \<and>
      sorted (uploadVideo_progress evs) \<and>
      (\<forall>v \<in> set (uploadVideo_progress evs). 0 \<le> v \<and> v \<le> 100) \<and>
      (evs \<noteq> [] \<and> loaded (last evs) = T \<longrightarrow> last (uploadVideo_progress evs) = 100)"
      by (simp add: percent_of_def)
  qed
  show ?thesis
    by (rule conjI [OF known_event conjI [OF unknown_event conjI [OF no_callback
          conjI [OF filtered transfer]]]])
qed

theorem upload_progress_monotone_witness:
  "map total [\<lparr>loaded = 512, total = Some 1024\<rparr>, \<lparr>loaded = 1024, total = Some 1024\<rparr>]
     = [Some 1024, Some 1024] \<and>
   sorted (map loaded [\<lparr>loaded = 512, total = Some 1024\<rparr>, \<lparr>loaded = 1024, total = Some 1024\<rparr>]) \<and>
   uploadVideo_progress [\<lparr>loaded = 512, total = Some 1024\<rparr>, \<lparr>loaded = 1024, total = Some 1024\<rparr>]
     = [50, 100] \<and>
   map progress_percent [\<lparr>loaded = 512, total = Some 1024\<rparr>, \<lparr>loaded = 1024, total = Some 1024\<rparr>]
     = [50, 100] \<and>
   uploadVideo_onUploadProgress True \<lparr>loaded = 512, total = Some 0\<rparr> = [] \<and>
   progress_percent \<lparr>loaded = 512, total = Some 0\<rparr> = 0"
  using upload_progress_monotone
    [of "\<lparr>loaded = 512, total = Some 0\<rparr>" 1024
        "[\<lparr>loaded = 512, total = Some 1024\<rparr>, \<lparr>loaded = 1024, total = Some 1024\<rparr>]" 1024]
  by (simp add: uploadVideo_progress_def uploadVideo_onUploadProgress_def progress_percent_def
      Math_round_def)

text \<open>
  The claim as written fails when the transport does not know the total: the API client
  then never calls the progress callback, and the upload widget shows 0 for every event,
  so no value of the upload is 100.  Nor do the callbacks order or bound anything
  themselves: a transfer that starts over after 800 of 1000 bytes yields 80, 0, 100, and
  an event that reports more bytes than the total yields a value above 100.
\<close>

theorem upload_progress_counterexample:
  "uploadVideo_progress [\<lparr>loaded = 512, total = None\<rparr>, \<lparr>loaded = 1024, total = None\<rparr>] = [] \<and>
   map progress_percent [\<lparr>loaded = 512, total = None\<rparr>, \<lparr>loaded = 1024, total = None\<rparr>]
     = [0, 0] \<and>
   uploadVideo_progress [\<lparr>loaded = 800, total = Some 1000\<rparr>, \<lparr>loaded = 0, total = Some 1000\<rparr>,
       \<lparr>loaded = 1000, total = Some 1000\<rparr>] = [80, 0, 100] \<and>
   uploadVideo_progress [\<lparr>loaded = 1500, total = Some 1000\<rparr>] = [150]"
  by (simp add: uploadVideo_progress_def uploadVideo_onUploadProgress_def progress_percent_def
      Math_round_def)

subsection \<open>Analysis views\<close>




text \<open>
  Claim C5.  When an analyze call fails and the error payload has a non-empty
  \<open>detail\<close> string, the error region shows exactly that string; when the payload has no
  detail, or an empty one, it shows the generic message of the view.  The failed
  invocation leaves the stored result as it was.
\<close>

theorem analyze_failure_shows_detail:
  assumes "truthy_string uploaded"
  shows "(error_detail err = Some d \<and> d \<noteq> [] \<longrightarrow>
            analysis_error_region (run_analysis (analyzeFile uploaded (Inl err)) st) = Some d \<and>
            analysis_error_region (run_analysis (analyzeVideo_run uploaded (Inl err)) st) = Some d) \<and>
         (error_detail err = None \<or> error_detail err = Some [] \<longrightarrow>
            analysis_error_region (run_analysis (analyzeFile uploaded (Inl err)) st)
              = Some ''Analysis failed'' \<and>
            analysis_error_region (run_analysis (analyzeVideo_run uploaded (Inl err)) st)
              = Some ''Video analysis failed'') \<and>
         result (run_analysis (analyzeFile uploaded (Inl err)) st) = result st \<and>
         result (run_analysis (analyzeVideo_run uploaded (Inl err)) st) = result st"
  using assms
  by (auto simp: analyzeFile_def analyzeVideo_run_def analyzeFile_begin_def analyzeVideo_begin_def
      analyzeFile_settle_def analyzeVideo_settle_def run_analysis_def analysis_error_region_def
      truthy_string_def or_string_def split: option.splits)

theorem analyze_failure_shows_detail_witness:
  "truthy_string (Some ''shot.png'') \<and>
   error_detail (ErrorResponse (Some ''file not found'')) = Some ''file not found'' \<and>
   analysis_error_region (run_analysis
       (analyzeFile (Some ''shot.png'') (Inl (ErrorResponse (Some ''file not found''))))
       \<lparr>analyzing = False, result = Some ''previous'', analysis_error = None\<rparr>)
     = Some ''file not found'' \<and>
   result (run_analysis
       (analyzeFile (Some ''shot.png'') (Inl (ErrorResponse (Some ''file not found''))))
       \<lparr>analyzing = False, result = Some ''previous'', analysis_error = None\<rparr>)
     = Some ''previous''"
  using analyze_failure_shows_detail [of "Some ''shot.png''"
      "ErrorResponse (Some ''file not found'')" "''file not found''"
      "\<lparr>analyzing = False, result = Some ''previous'', analysis_error = None\<rparr>"]
  by (simp add: truthy_string_def error_detail_def)

text \<open>
  The claim as written fails for a payload whose detail field is there and empty: the
  error region shows the generic message, not the detail.
\<close>

theorem analyze_failure_counterexample:
  "error_detail (ErrorResponse (Some [])) = Some [] \<and>
   analysis_error_region (run_analysis
       (analyzeFile (Some ''shot.png'') (Inl (ErrorResponse (Some []))))
       \<lparr>analyzing = False, result = Some ''previous'', analysis_error = None\<rparr>)
     = Some ''Analysis failed''"
  by (simp add: analyzeFile_def analyzeFile_begin_def analyzeFile_settle_def run_analysis_def
      analysis_error_region_def truthy_string_def or_string_def error_detail_def)

subsection \<open>Authorization header\<close>

lemma apiClient_attaches_token:
  assumes "storage ''auth_token'' = Some token" and "token \<noteq> []"
  shows "headers (apiClient storage env m path d hs) ''Authorization'' = Some (''Bearer '' @ token)"
  using assms by (simp add: apiClient_def request_interceptor_def)

lemma poseAnalysisAPI_attaches_token:
  assumes "storage ''auth_token'' = Some token" and "token \<noteq> []"
  shows "\<forall>q \<in> {uploadImage storage env file, uploadVideo storage env file,
            analyzeImage storage env fname, analyzeVideo storage env fname,
            getPoseClasses storage env, getAnalysisHistory storage env limit,
            trackPlayerProgress storage env playerId analysisData,
            getPlayerProgress storage env playerId, cleanupFile storage env fname}.
          headers q ''Authorization'' = Some (''Bearer '' @ token)"
  using apiClient_attaches_token [of storage token, OF assms]
  by (simp add: uploadImage_def uploadVideo_def analyzeImage_def analyzeVideo_def
      getPoseClasses_def getAnalysisHistory_def trackPlayerProgress_def getPlayerProgress_def
      cleanupFile_def)

text \<open>
  Claim C6.  The calls the components make do not go through the API client: the upload
  widget and the two analysis views post on the global axios instance, which has no
  interceptor, so their requests carry no Authorization header whatever the browser
  storage holds.  The API client's own function for the same analysis, given a store
  with the token \<open>abc\<close>, sends \<open>Bearer abc\<close>.
\<close>

theorem component_calls_carry_no_token:
  "headers (analyzeFile_request ''shot.png'') ''Authorization'' = None \<and>
   headers (analyzeVideo_request ''clip.mp4'') ''Authorization'' = None \<and>
   headers (upload_request \<lparr>file_name = ''shot.png'', file_type = ''image/png'', file_size = 10\<rparr>)
     ''Authorization'' = None \<and>
   headers (analyzeImage [''auth_token'' \<mapsto> ''abc''] None ''shot.png'') ''Authorization''
     = Some ''Bearer abc''"
  by (simp add: analyzeFile_request_def analyzeVideo_request_def upload_request_def axios_post_def
      analyzeImage_def apiClient_def request_interceptor_def)

subsection \<open>Missing numeric metrics\<close>

text \<open>
  Claim C9.  In the four pose-metric cells (balance ratio, torso angle, body symmetry,
  shoulder width) and the two velocity cells (average, maximum) a missing field is
  rendered as the literal \<open>N/A\<close>, the torso-angle cell keeping its degree suffix after
  it.  A missing confidence or quality score is rendered as zero (\<open>Confidence: 0%\<close>,
  \<open>Score: 0/100\<close> in the error colour), and a missing frame count hides its line.
\<close>

theorem absent_metric_cells:
  "(balance_ratio m = None \<longrightarrow> balance_ratio_cell toFixed m = ''N/A'') \<and>
   (torso_angle m = None \<longrightarrow> torso_angle_cell toFixed m = ''N/A'' @ degree_suffix) \<and>
   (body_symmetry m = None \<longrightarrow> body_symmetry_cell toFixed m = ''N/A'') \<and>
   (shoulder_width m = None \<longrightarrow> shoulder_width_cell toFixed m = ''N/A'') \<and>
   (average_velocity mo = None \<longrightarrow> average_velocity_cell toFixed mo = ''N/A'') \<and>
   (max_velocity mo = None \<longrightarrow> max_velocity_cell toFixed mo = ''N/A'') \<and>
   (Option.bind (top_down_prediction a) confidence = None \<longrightarrow>
      confidence_text a = ''Confidence: 0%'') \<and>
   (quality_score a = None \<longrightarrow>
      score_text a = ''Score: 0/100'' \<and> score_color a = ''error'') \<and>
   (sequence_length v = None \<longrightarrow> frames_text v = None)"
  by (simp add: score_color_def getQualityColor_def balance_ratio_cell_def torso_angle_cell_def body_symmetry_cell_def
      shoulder_width_cell_def average_velocity_cell_def max_velocity_cell_def
      toFixed_or_NA_def or_string_def confidence_text_def score_text_def frames_text_def
      or_number_def Math_round_def String_of_int_def digits.simps)

theorem absent_metric_cells_witness:
  "balance_ratio_cell (\<lambda>x d. ''1.00'')
      \<lparr>balance_ratio = None, torso_angle = None, body_symmetry = Some 1, shoulder_width = None\<rparr>
     = ''N/A'' \<and>
   body_symmetry_cell (\<lambda>x d. ''1.00'')
      \<lparr>balance_ratio = None, torso_angle = None, body_symmetry = Some 1, shoulder_width = None\<rparr>
     = ''1.00'' \<and>
   max_velocity_cell (\<lambda>x d. ''1.00'')
      \<lparr>smoothness_score = None, rhythm_consistency = None, average_velocity = None,
       max_velocity = None\<rparr> = ''N/A'' \<and>
   score_text \<lparr>top_down_prediction = None, quality_score = None, analysis_detail = None\<rparr>
     = ''Score: 0/100'' \<and>
   frames_text \<lparr>motion_analysis = None, sequence_length = None\<rparr> = None"
  using absent_metric_cells [of
      "\<lparr>balance_ratio = None, torso_angle = None, body_symmetry = Some 1, shoulder_width = None\<rparr>"
      "\<lambda>x d. ''1.00''"
      "\<lparr>smoothness_score = None, rhythm_consistency = None, average_velocity = None,
        max_velocity = None\<rparr>"
      "\<lparr>top_down_prediction = None, quality_score = None, analysis_detail = None\<rparr>"
      "\<lparr>motion_analysis = None, sequence_length = None\<rparr>"]
  by (simp add: body_symmetry_cell_def toFixed_or_NA_def or_string_def)

text \<open>
  The claim as written fails: with no quality score and no confidence in the response
  the image view shows zeros, and with no smoothness score the video view shows
  \<open>NaN%\<close>.
\<close>

theorem absent_metric_counterexample:
  "quality_score \<lparr>top_down_prediction = None, quality_score = None, analysis_detail = None\<rparr>
     = None \<and>
   score_text \<lparr>top_down_prediction = None, quality_score = None, analysis_detail = None\<rparr>
     = ''Score: 0/100'' \<and>
   confidence_text \<lparr>top_down_prediction = None, quality_score = None, analysis_detail = None\<rparr>
     = ''Confidence: 0%'' \<and>
   smoothness_text \<lparr>smoothness_score = None, rhythm_consistency = None, average_velocity = None,
       max_velocity = None\<rparr> = ''NaN%''"
  by (simp add: score_text_def confidence_text_def smoothness_text_def percent_text_def
      or_number_def Math_round_def String_of_int_def digits.simps)

subsection \<open>View selection\<close>

text \<open>
  Claim C10.  The top-level handler takes the filename and drops the media kind: after
  an upload reported as \<open>(clip.mp4, video)\<close> the only panel shown is the image-analysis
  view, holding that filename; the video-analysis view is not shown.
\<close>

theorem video_upload_opens_image_view:
  "visible_views (onFileUpload ''clip.mp4'' ''video''
      \<lparr>activeTab = 0, uploadedFile = None, analysisResult = (None :: unit option)\<rparr>)
     = [PoseAnalysisView (Some ''clip.mp4'')]"
  by (simp add: onFileUpload_def handleFileUpload_def visible_views_def TabPanel_def)

end
